theory Spec2Isabelle
  imports Complex_Main "HOL-Library.AList" "HOL-Library.Multiset"
    "HOL-Library.Product_Lexorder"
begin

section \<open>Strings\<close>

text \<open>
  A Python \<open>str\<close> is modelled as a HOL \<open>string\<close>, one \<open>char\<close> per code point, for
  code points below 256. \<open>str.upper\<close> is modelled on the ASCII letters, which is where
  the ticker tables of the program live, and leaves every other character as it is.
  \<open>str.lower\<close> is modelled on the ASCII and the Latin-1 letters. \<open>str.strip\<close> removes
  the ASCII characters for which \<open>str.isspace\<close> holds (code points 9 to 13 and 28 to 32)
  from both ends.
\<close>

definition ascii_lowercase :: string where
  "ascii_lowercase = ''abcdefghijklmnopqrstuvwxyz''"

definition ascii_uppercase :: string where
  "ascii_uppercase = ''ABCDEFGHIJKLMNOPQRSTUVWXYZ''"

definition upper_char :: "char \<Rightarrow> char" where
  "upper_char c =
     (case map_of (zip ascii_lowercase ascii_uppercase) c of Some u \<Rightarrow> u | None \<Rightarrow> c)"

definition latin1_uppercase :: string where
  "latin1_uppercase =
     [CHR 0xC0, CHR 0xC1, CHR 0xC2, CHR 0xC3, CHR 0xC4, CHR 0xC5, CHR 0xC6, CHR 0xC7,
      CHR 0xC8, CHR 0xC9, CHR 0xCA, CHR 0xCB, CHR 0xCC, CHR 0xCD, CHR 0xCE, CHR 0xCF,
      CHR 0xD0, CHR 0xD1, CHR 0xD2, CHR 0xD3, CHR 0xD4, CHR 0xD5, CHR 0xD6,
      CHR 0xD8, CHR 0xD9, CHR 0xDA, CHR 0xDB, CHR 0xDC, CHR 0xDD, CHR 0xDE]"

definition latin1_lowercase :: string where
  "latin1_lowercase =
     [CHR 0xE0, CHR 0xE1, CHR 0xE2, CHR 0xE3, CHR 0xE4, CHR 0xE5, CHR 0xE6, CHR 0xE7,
      CHR 0xE8, CHR 0xE9, CHR 0xEA, CHR 0xEB, CHR 0xEC, CHR 0xED, CHR 0xEE, CHR 0xEF,
      CHR 0xF0, CHR 0xF1, CHR 0xF2, CHR 0xF3, CHR 0xF4, CHR 0xF5, CHR 0xF6,
      CHR 0xF8, CHR 0xF9, CHR 0xFA, CHR 0xFB, CHR 0xFC, CHR 0xFD, CHR 0xFE]"

definition lower_char :: "char \<Rightarrow> char" where
  "lower_char c =
     (case map_of (zip (ascii_uppercase @ latin1_uppercase)
                       (ascii_lowercase @ latin1_lowercase)) c
      of Some l \<Rightarrow> l | None \<Rightarrow> c)"

definition upper :: "string \<Rightarrow> string" where
  "upper s = map upper_char s"

definition lower :: "string \<Rightarrow> string" where
  "lower s = map lower_char s"

definition whitespace :: string where
  "whitespace = [CHR 0x09, CHR 0x0A, CHR 0x0B, CHR 0x0C, CHR 0x0D,
                 CHR 0x1C, CHR 0x1D, CHR 0x1E, CHR 0x1F, CHR 0x20]"

definition isspace :: "char \<Rightarrow> bool" where
  "isspace c = (c \<in> set whitespace)"

definition strip :: "string \<Rightarrow> string" where
  "strip s = rev (dropWhile isspace (rev (dropWhile isspace s)))"

text \<open>\<open>sub in s\<close> on strings.\<close>

fun contains :: "string \<Rightarrow> string \<Rightarrow> bool" where
  "contains sub [] = (sub = [])"
| "contains sub (c # cs) = (take (length sub) (c # cs) = sub \<or> contains sub cs)"

section \<open>Symbol normalizer (bot.py, normalize\_symbol)\<close>

definition name_to_symbol :: "(string \<times> string) list" where
  "name_to_symbol =
     [(''APPLE'', ''AAPL''), (''TESLA'', ''TSLA''), (''MICROSOFT'', ''MSFT''),
      (''GOOGLE'', ''GOOGL''), (''ALPHABET'', ''GOOGL''), (''AMAZON'', ''AMZN''),
      (''FACEBOOK'', ''META''), (''META'', ''META''), (''NVIDIA'', ''NVDA''),
      (''NETFLIX'', ''NFLX''),
      (''BITCOIN'', ''BTC''), (''ETHEREUM'', ''ETH''), (''CARDANO'', ''ADA''),
      (''DOGECOIN'', ''DOGE''), (''SOLANA'', ''SOL''),
      (''COCA'', ''KO''), (''COCACOLA'', ''KO''), (''MCDONALD'', ''MCD''),
      (''MCDONALDS'', ''MCD''), (''DISNEY'', ''DIS''), (''WALMART'', ''WMT''),
      (''VISA'', ''V''), (''MASTERCARD'', ''MA''), (''PAYPAL'', ''PYPL''),
      (''INTEL'', ''INTC''), (''AMD'', ''AMD''), (''ORACLE'', ''ORCL''),
      (''UBER'', ''UBER''), (''AIRBNB'', ''ABNB''), (''ZOOM'', ''ZM'')]"

definition crypto_mapping :: "(string \<times> string) list" where
  "crypto_mapping =
     [(''BTC'', ''BTC-USD''), (''ETH'', ''ETH-USD''), (''ADA'', ''ADA-USD''),
      (''DOT'', ''DOT-USD''), (''LINK'', ''LINK-USD''), (''LTC'', ''LTC-USD''),
      (''XRP'', ''XRP-USD''), (''DOGE'', ''DOGE-USD''), (''MATIC'', ''MATIC-USD''),
      (''SOL'', ''SOL-USD'')]"

text \<open>\<open>d.get(k, default)\<close> on a dictionary given as an association list.\<close>

definition dict_get :: "('k \<times> 'v) list \<Rightarrow> 'k \<Rightarrow> 'v \<Rightarrow> 'v" where
  "dict_get d k dflt = (case map_of d k of Some v \<Rightarrow> v | None \<Rightarrow> dflt)"

text \<open>The part of \<open>normalize_symbol\<close> after \<open>symbol.upper().strip()\<close>.\<close>

definition lookup_symbol :: "string \<Rightarrow> string" where
  "lookup_symbol symbol =
     (let symbol' = (case map_of name_to_symbol symbol of Some ticker \<Rightarrow> ticker
                     | None \<Rightarrow> symbol)
      in dict_get crypto_mapping symbol' symbol')"

definition normalize_symbol :: "string \<Rightarrow> string" where
  "normalize_symbol symbol = lookup_symbol (strip (upper symbol))"

section \<open>Response cache (cache.py, IntelligentCache)\<close>

text \<open>
  Time stamps (\<open>time.time()\<close>) are rational numbers of seconds. Every operation reads the
  clock; the reading is the argument \<open>now\<close>, taken to be the same for all the readings
  inside one call. A dictionary is an association list in insertion order:
  \<open>d[k] = v\<close> is \<open>AList.update\<close> (an existing key keeps its place, a new key goes to
  the end) and \<open>del d[k]\<close> is \<open>AList.delete\<close>.
\<close>

record 'v CacheEntry =
  data :: 'v
  timestamp :: rat
  ttl :: int
  access_count :: nat
  last_access :: rat

definition is_expired :: "rat \<Rightarrow> 'v CacheEntry \<Rightarrow> bool" where
  "is_expired now entry = (now - timestamp entry > of_int (ttl entry))"

definition touch :: "rat \<Rightarrow> 'v CacheEntry \<Rightarrow> 'v CacheEntry" where
  "touch now entry = entry\<lparr>access_count := access_count entry + 1, last_access := now\<rparr>"

text \<open>The four counters of \<open>self.stats\<close> are fields of the cache record.\<close>

record ('k, 'v) IntelligentCache =
  cache :: "('k \<times> 'v CacheEntry) list"
  max_size :: int
  hits :: nat
  misses :: nat
  evictions :: nat
  cleanups :: nat

definition IntelligentCache_init :: "int \<Rightarrow> ('k, 'v) IntelligentCache" where
  "IntelligentCache_init n =
     \<lparr>cache = [], max_size = n, hits = 0, misses = 0, evictions = 0, cleanups = 0\<rparr>"

text \<open>
  \<open>_generate_key\<close> is the MD5 digest of a text made of the namespace and the arguments.
  The digest is a library function; the key derivation is the parameter \<open>G\<close> of the
  operations below, a function of the namespace and the arguments.
\<close>

definition IntelligentCache_get ::
  "(string \<Rightarrow> 'a \<Rightarrow> 'k) \<Rightarrow> ('k, 'v) IntelligentCache \<Rightarrow> rat \<Rightarrow> string \<Rightarrow> 'a
     \<Rightarrow> 'v option \<times> ('k, 'v) IntelligentCache" where
  "IntelligentCache_get G C now namespace args =
     (let key = G namespace args in
      case map_of (cache C) key of
        None \<Rightarrow> (None, C\<lparr>misses := misses C + 1\<rparr>)
      | Some entry \<Rightarrow>
          if is_expired now entry
          then (None, C\<lparr>cache := AList.delete key (cache C), misses := misses C + 1\<rparr>)
          else (Some (data entry),
                C\<lparr>cache := AList.update key (touch now entry) (cache C),
                  hits := hits C + 1\<rparr>))"

text \<open>The sort key of \<open>_cleanup\<close>: the pair (access count, last access), compared
  lexicographically as Python compares tuples.\<close>

definition rank :: "'k \<times> 'v CacheEntry \<Rightarrow> nat \<times> rat" where
  "rank x = (access_count (snd x), last_access (snd x))"

definition expired_keys :: "rat \<Rightarrow> ('k \<times> 'v CacheEntry) list \<Rightarrow> 'k list" where
  "expired_keys now al = map fst (filter (\<lambda>(key, entry). is_expired now entry) al)"

definition sorted_entries :: "('k \<times> 'v CacheEntry) list \<Rightarrow> ('k \<times> 'v CacheEntry) list" where
  "sorted_entries al = sort_key rank al"

text \<open>\<open>int(len(sorted_entries) * 0.2)\<close>; the product with the decimal constant is exact.\<close>

definition to_remove :: "('k \<times> 'v CacheEntry) list \<Rightarrow> nat" where
  "to_remove al = nat \<lfloor>(of_nat (length (sorted_entries al)) :: rat) * (2 / 10)\<rfloor>"

definition IntelligentCache_cleanup ::
  "('k, 'v) IntelligentCache \<Rightarrow> rat \<Rightarrow> ('k, 'v) IntelligentCache" where
  "IntelligentCache_cleanup C now =
     (let C1 = C\<lparr>cache := fold AList.delete (expired_keys now (cache C)) (cache C)\<rparr>;
          C2 = (if (of_nat (length (cache C1)) :: rat) > of_int (max_size C1) * (8 / 10)
                then let victims = map fst (take (to_remove (cache C1)) (sorted_entries (cache C1)))
                     in C1\<lparr>cache := fold AList.delete victims (cache C1),
                           evictions := evictions C1 + length victims\<rparr>
                else C1)
      in C2\<lparr>cleanups := cleanups C2 + 1\<rparr>)"

definition IntelligentCache_set ::
  "(string \<Rightarrow> 'a \<Rightarrow> 'k) \<Rightarrow> ('k, 'v) IntelligentCache \<Rightarrow> rat \<Rightarrow> string \<Rightarrow> 'v \<Rightarrow> int \<Rightarrow> 'a
     \<Rightarrow> ('k, 'v) IntelligentCache" where
  "IntelligentCache_set G C now namespace d t args =
     (let key = G namespace args;
          C1 = (if int (length (cache C)) \<ge> max_size C then IntelligentCache_cleanup C now
                else C)
      in C1\<lparr>cache := AList.update key
                 \<lparr>data = d, timestamp = now, ttl = t, access_count = 0, last_access = now\<rparr>
                 (cache C1)\<rparr>)"


subsection \<open>Example stores\<close>

text \<open>A key derivation for the examples: distinct (namespace, query) pairs get distinct keys.\<close>

definition example_key :: "string \<Rightarrow> string \<Rightarrow> string" where
  "example_key namespace query = namespace @ '':'' @ query"

text \<open>
  A full store of capacity five: \<open>a\<close> to \<open>e\<close> were stored at times 0 to 4, \<open>a\<close> to \<open>d\<close>
  were then read twice each (the second time at times 10 to 13), and \<open>e\<close> was read last,
  once, at time 14.
\<close>

definition busy_cache :: "(string, nat) IntelligentCache" where
  "busy_cache =
     \<lparr>cache =
        [(''ns:a'', \<lparr>data = 1, timestamp = 0, ttl = 100, access_count = 2, last_access = 10\<rparr>),
         (''ns:b'', \<lparr>data = 2, timestamp = 1, ttl = 100, access_count = 2, last_access = 11\<rparr>),
         (''ns:c'', \<lparr>data = 3, timestamp = 2, ttl = 100, access_count = 2, last_access = 12\<rparr>),
         (''ns:d'', \<lparr>data = 4, timestamp = 3, ttl = 100, access_count = 2, last_access = 13\<rparr>),
         (''ns:e'', \<lparr>data = 5, timestamp = 4, ttl = 100, access_count = 1, last_access = 14\<rparr>)],
      max_size = 5, hits = 9, misses = 0, evictions = 0, cleanups = 0\<rparr>"

datatype cache_op = Store string nat int | Read string

fun run_ops :: "(string, nat) IntelligentCache \<Rightarrow> (rat \<times> cache_op) list
    \<Rightarrow> (string, nat) IntelligentCache" where
  "run_ops C [] = C"
| "run_ops C ((now, Store q d t) # ops) =
     run_ops (IntelligentCache_set example_key C now ''ns'' d t q) ops"
| "run_ops C ((now, Read q) # ops) =
     run_ops (snd (IntelligentCache_get example_key C now ''ns'' q)) ops"

section \<open>Rate limiter and backoff tracker (bot.py, SimpleCache)\<close>

text \<open>
  The object \<open>cache = SimpleCache(cache_duration_minutes=360)\<close> of bot.py. Durations are
  in seconds. The dictionaries are maps; their order is never used.
\<close>

record 'v SimpleCache =
  entries :: "string \<rightharpoonup> ('v \<times> rat)"
  cache_duration :: rat
  last_request_time :: "string \<rightharpoonup> rat"
  min_request_interval :: rat
  rate_limit_backoff :: "string \<rightharpoonup> rat"

definition SimpleCache_init :: "rat \<Rightarrow> 'v SimpleCache" where
  "SimpleCache_init cache_duration_minutes =
     \<lparr>entries = Map.empty, cache_duration = cache_duration_minutes * 60,
      last_request_time = Map.empty, min_request_interval = 8,
      rate_limit_backoff = Map.empty\<rparr>"

text \<open>
  What the functions of bot.py act on besides their arguments: the cache object, the clock
  (read by \<open>time.time()\<close> and \<open>datetime.now()\<close>, advanced by \<open>time.sleep\<close> and by
  nothing else), and the list of the requests sent upstream so far.
\<close>

datatype request =
  TwelveQuote string "string option"
| AlphaVantageQuery string string
| WeatherCurrent string
| WeatherForecast string

record 'v world =
  bot_cache :: "'v SimpleCache"
  clock :: rat
  sent :: "request list"

definition sleep :: "rat \<Rightarrow> 'v world \<Rightarrow> 'v world" where
  "sleep seconds w = w\<lparr>clock := clock w + seconds\<rparr>"

definition SimpleCache_get :: "string \<Rightarrow> 'v world \<Rightarrow> 'v option \<times> 'v world" where
  "SimpleCache_get key w =
     (case entries (bot_cache w) key of
        Some (d, stamp) \<Rightarrow>
          if clock w - stamp < cache_duration (bot_cache w) then (Some d, w)
          else (None, w\<lparr>bot_cache := (bot_cache w)
                  \<lparr>entries := (entries (bot_cache w))(key := None)\<rparr>\<rparr>)
      | None \<Rightarrow> (None, w))"

definition SimpleCache_set :: "string \<Rightarrow> 'v \<Rightarrow> 'v world \<Rightarrow> 'v world" where
  "SimpleCache_set key v w =
     w\<lparr>bot_cache := (bot_cache w)\<lparr>entries := (entries (bot_cache w))(key \<mapsto> (v, clock w))\<rparr>\<rparr>"

text \<open>
  \<open>wait_for_rate_limit\<close>: \<open>now\<close> is read once, on entry. The two \<open>if\<close> statements follow one
  another, and the second one computes the time since the last request from \<open>now\<close>, also
  after the first one has slept.
\<close>

definition wait_for_rate_limit :: "string \<Rightarrow> 'v world \<Rightarrow> 'v world" where
  "wait_for_rate_limit api_name w =
     (let now = clock w;
          w1 = (case rate_limit_backoff (bot_cache w) api_name of
                  Some backoff_time \<Rightarrow>
                    if now < backoff_time then sleep (backoff_time - now) w else w
                | None \<Rightarrow> w);
          w2 = (case last_request_time (bot_cache w1) api_name of
                  Some last_time \<Rightarrow>
                    (let time_since_last = now - last_time in
                     if time_since_last < min_request_interval (bot_cache w1)
                     then sleep (min_request_interval (bot_cache w1) - time_since_last) w1
                     else w1)
                | None \<Rightarrow> w1)
      in w2\<lparr>bot_cache := (bot_cache w2)
            \<lparr>last_request_time := (last_request_time (bot_cache w2))(api_name \<mapsto> clock w2)\<rparr>\<rparr>)"

definition trigger_backoff :: "string \<Rightarrow> rat \<Rightarrow> 'v world \<Rightarrow> 'v world" where
  "trigger_backoff api_name backoff_seconds w =
     w\<lparr>bot_cache := (bot_cache w)
         \<lparr>rate_limit_backoff :=
            (rate_limit_backoff (bot_cache w))(api_name \<mapsto> clock w + backoff_seconds)\<rparr>\<rparr>"

text \<open>
  The algorithm of the specification, in its words: (1) if \<open>backoff_until[provider]\<close> exists
  and is in the future, block until that instant; (2) else, if the time elapsed since
  \<open>last_request_time[provider]\<close> is less than the minimum interval, block for the
  remainder; (3) record the current time as the new \<open>last_request_time[provider]\<close>.
\<close>

definition spec_wait_for_slot :: "string \<Rightarrow> 'v world \<Rightarrow> 'v world" where
  "spec_wait_for_slot provider w =
     (let w1 =
        (if (case rate_limit_backoff (bot_cache w) provider of
               Some backoff_until \<Rightarrow> clock w < backoff_until | None \<Rightarrow> False)
         then w\<lparr>clock := the (rate_limit_backoff (bot_cache w) provider)\<rparr>
         else (case last_request_time (bot_cache w) provider of
                 Some last_time \<Rightarrow>
                   if clock w - last_time < min_request_interval (bot_cache w)
                   then sleep (min_request_interval (bot_cache w) - (clock w - last_time)) w
                   else w
               | None \<Rightarrow> w))
      in w1\<lparr>bot_cache := (bot_cache w1)
            \<lparr>last_request_time := (last_request_time (bot_cache w1))(provider \<mapsto> clock w1)\<rparr>\<rparr>)"

text \<open>The waiting times of the two steps of \<open>wait_for_rate_limit\<close>, from the state on entry.\<close>

definition backoff_wait :: "string \<Rightarrow> 'v world \<Rightarrow> rat" where
  "backoff_wait api_name w =
     (case rate_limit_backoff (bot_cache w) api_name of
        Some backoff_time \<Rightarrow> if clock w < backoff_time then backoff_time - clock w else 0
      | None \<Rightarrow> 0)"

definition interval_wait :: "string \<Rightarrow> 'v world \<Rightarrow> rat" where
  "interval_wait api_name w =
     (case last_request_time (bot_cache w) api_name of
        Some last_time \<Rightarrow>
          if clock w - last_time < min_request_interval (bot_cache w)
          then min_request_interval (bot_cache w) - (clock w - last_time) else 0
      | None \<Rightarrow> 0)"

text \<open>A fresh process: the cache object as bot.py creates it, the clock at zero.\<close>

definition start :: "'v world" where
  "start = \<lparr>bot_cache = SimpleCache_init 360, clock = 0, sent = []\<rparr>"

section \<open>Configuration and results (bot.py)\<close>

text \<open>
  \<open>os.environ\<close> is a map from names to strings. \<open>CONFIG\<close> is the dictionary literal of
  bot.py: every key is present, and the value of a key whose environment variable is not
  set is Python's \<open>None\<close>.
\<close>

type_synonym environ = "string \<rightharpoonup> string"

definition CONFIG :: "environ \<Rightarrow> (string \<times> string option) list" where
  "CONFIG environ =
     [(''TELEGRAM_BOT_TOKEN'', environ ''TELEGRAM_BOT_TOKEN''),
      (''TELEGRAM_CHAT_ID'', environ ''TELEGRAM_CHAT_ID''),
      (''OPENWEATHER_API_KEY'', environ ''OPENWEATHER_API_KEY''),
      (''WEATHER_API_KEY'', environ ''WEATHER_API_KEY''),
      (''ALPHA_VANTAGE_API_KEY'', environ ''ALPHA_API_KEY''),
      (''FMP_API_KEY'', environ ''FMP_API_KEY''),
      (''TWELVE_API_KEY'', environ ''TWELVE_API_KEY''),
      (''RENDER_EXTERNAL_URL'',
         Some (case environ ''RENDER_EXTERNAL_URL'' of Some url \<Rightarrow> url
               | None \<Rightarrow> ''https://akuguard.onrender.com''))]"

text \<open>\<open>bool(x)\<close> for a value that is a string or \<open>None\<close>.\<close>

definition truthy :: "string option \<Rightarrow> bool" where
  "truthy x = (case x of None \<Rightarrow> False | Some s \<Rightarrow> s \<noteq> [])"

text \<open>
  An error result \<open>{"error": message}\<close> is a value of the type \<open>error\<close>, one constructor
  for each message of the functions modelled here, with the texts that the message
  interpolates. A function that returns an error result or a record returns a sum, the
  error on the left.
\<close>

datatype error =
  NoFinancialApis
| AlphaVantageNoKey
| AlphaVantageRateLimit string
| AlphaVantageNotFound string
| AlphaVantageBadKey string
| AlphaVantageError string string
| WeatherNotConfigured
| CityNotFound string

text \<open>
  The answer to an HTTP request: the request raised (time-out, no connection), or it
  returned a status code and a body. The body is \<open>None\<close> when reading it raises.
\<close>

datatype 'b response = RequestFailed | Response nat "'b option"

section \<open>Weather fetch (bot.py, get\_weather\_data)\<close>

definition city_variations :: "string \<Rightarrow> string list" where
  "city_variations city =
     [city, city @ '',Argentina'', city @ '',AR''] @
     (let city_lower = lower city in
      if contains ''cordoba'' city_lower \<or> contains (''c'' @ [CHR 0xF3] @ ''rdoba'') city_lower
      then [''C'' @ [CHR 0xF3] @ ''rdoba,Argentina'', ''Cordoba,Argentina'',
            ''C'' @ [CHR 0xF3] @ ''rdoba,AR'', ''Cordoba,AR'']
      else if contains ''buenos aires'' city_lower \<or> contains ''bsas'' city_lower
      then [''Buenos Aires,Argentina'', ''Ciudad de Buenos Aires,Argentina'', ''CABA,Argentina'']
      else if contains ''mendoza'' city_lower
      then [''Mendoza,Argentina'']
      else [])"

text \<open>
  The weather service. \<open>weather_current q\<close> answers the request for the current conditions
  of \<open>q\<close>; its body is the \<open>weather_data\<close> record that the code builds from the JSON text
  (with an empty forecast), or \<open>None\<close> when decoding the text or reading one of its fields
  raises. \<open>weather_forecast q\<close> is the list of forecast entries that the inner \<open>try\<close> block
  appends for \<open>q\<close>; it is empty when the forecast request fails.
\<close>

record ('w, 'f) weather_api =
  weather_current :: "string \<Rightarrow> 'w response"
  weather_forecast :: "string \<Rightarrow> 'f list"

text \<open>The \<open>for\<close> loop over the variations; \<open>None\<close> when the loop runs to its end.\<close>

fun try_variations ::
  "string option \<Rightarrow> ('w, 'f) weather_api \<Rightarrow> string \<Rightarrow> string list \<Rightarrow> ('w \<times> 'f list) world
     \<Rightarrow> (error + 'w \<times> 'f list) option \<times> ('w \<times> 'f list) world" where
  "try_variations api_key api cache_key [] w = (None, w)"
| "try_variations api_key api cache_key (city_variation # rest) w =
     (if \<not> truthy api_key then (Some (Inl WeatherNotConfigured), w)
      else
        let w1 = w\<lparr>sent := sent w @ [WeatherCurrent city_variation]\<rparr> in
        case weather_current api city_variation of
          RequestFailed \<Rightarrow> try_variations api_key api cache_key rest w1
        | Response status_code body \<Rightarrow>
            if status_code \<noteq> 200 then try_variations api_key api cache_key rest w1
            else
              (case body of
                 None \<Rightarrow> try_variations api_key api cache_key rest w1
               | Some current \<Rightarrow>
                   let w2 = w1\<lparr>sent := sent w1 @ [WeatherForecast city_variation]\<rparr>;
                       weather_data = (current, weather_forecast api city_variation)
                   in (Some (Inr weather_data), SimpleCache_set cache_key weather_data w2)))"

definition get_weather_data ::
  "environ \<Rightarrow> ('w, 'f) weather_api \<Rightarrow> string \<Rightarrow> ('w \<times> 'f list) world
     \<Rightarrow> (error + 'w \<times> 'f list) \<times> ('w \<times> 'f list) world" where
  "get_weather_data environ api city w =
     (let cache_key = ''weather_'' @ lower city;
          (cached_data, w1) = SimpleCache_get cache_key w
      in case cached_data of
           Some weather_data \<Rightarrow> (Inr weather_data, w1)
         | None \<Rightarrow>
             (let w2 = wait_for_rate_limit ''weatherapi'' w1
              in case try_variations (dict_get (CONFIG environ) ''WEATHER_API_KEY'' None)
                        api cache_key (city_variations city) w2 of
                   (Some result, w3) \<Rightarrow> (result, w3)
                 | (None, w3) \<Rightarrow> (Inl (CityNotFound city), w3)))"

text \<open>A variation is usable when its request returns HTTP 200 with a body that can be read.\<close>

definition usable :: "('w, 'f) weather_api \<Rightarrow> string \<Rightarrow> bool" where
  "usable api q =
     (case weather_current api q of
        Response status_code (Some current) \<Rightarrow> status_code = 200
      | _ \<Rightarrow> False)"

definition current_of :: "('w, 'f) weather_api \<Rightarrow> string \<Rightarrow> 'w" where
  "current_of api q = (case weather_current api q of Response status_code (Some current) \<Rightarrow> current)"

subsection \<open>Example services\<close>

text \<open>
  \<open>garbled_first\<close> answers the plain name with HTTP 200 and a body that cannot be read, the
  name with the country with a good body, and anything else with HTTP 404. \<open>always_fine\<close>
  answers every request with a good body, \<open>always_404\<close> none.
\<close>

definition garbled_first :: "(nat, nat) weather_api" where
  "garbled_first =
     \<lparr>weather_current = (\<lambda>q. if q = ''Cordoba'' then Response 200 None
                              else if q = ''Cordoba,Argentina'' then Response 200 (Some 21)
                              else Response 404 None),
      weather_forecast = (\<lambda>q. [])\<rparr>"

definition always_fine :: "(nat, nat) weather_api" where
  "always_fine = \<lparr>weather_current = (\<lambda>q. Response 200 (Some 21)), weather_forecast = (\<lambda>q. [])\<rparr>"

definition always_404 :: "(nat, nat) weather_api" where
  "always_404 = \<lparr>weather_current = (\<lambda>q. Response 404 None), weather_forecast = (\<lambda>q. [])\<rparr>"

section \<open>Quote records and the financial adapters (bot.py)\<close>

text \<open>
  The values of a \<open>stock_data\<close> dictionary: Python integers, floats and strings. A finite
  float is the rational number it denotes; rounding is not modelled. A dictionary is an
  association list in the order of the dictionary literal.
\<close>

datatype pyval = PInt int | PFloat rat | PStr string

type_synonym stock_data = "(string \<times> pyval) list"

text \<open>\<open>x == 0\<close> for a value of a \<open>stock_data\<close> dictionary.\<close>

fun eq_zero :: "pyval \<Rightarrow> bool" where
  "eq_zero (PInt i) = (i = 0)"
| "eq_zero (PFloat r) = (r = 0)"
| "eq_zero (PStr s) = False"

text \<open>A decoded JSON text.\<close>

datatype json =
  JNull | JBool bool | JInt int | JFloat rat | JStr string
| JArr "json list" | JObj "(string \<times> json) list"

text \<open>
  What lies outside the program: the two quote services and Python's conversions of
  strings to numbers (\<open>None\<close> when the conversion raises \<open>ValueError\<close>).
  \<open>twelve_api symbol apikey\<close> answers the quote request of Twelve Data; the \<open>apikey\<close>
  parameter is left out of the request when it is \<open>None\<close>.
  \<open>alphavantage_api symbol apikey\<close> is the outcome of the requests and of the reading of
  their answers in the \<open>try\<close> block of \<open>get_stock_data_alphavantage\<close>: the
  \<open>stock_data\<close> it builds, or the text of the exception it raises.
\<close>

record upstream =
  twelve_api :: "string \<Rightarrow> string option \<Rightarrow> json response"
  alphavantage_api :: "string \<Rightarrow> string \<Rightarrow> string + stock_data"
  float_of_str :: "string \<Rightarrow> rat option"
  int_of_str :: "string \<Rightarrow> int option"

text \<open>\<open>float(x)\<close> and \<open>int(x)\<close> for a decoded JSON value; \<open>None\<close> when they raise.\<close>

fun py_float :: "upstream \<Rightarrow> json \<Rightarrow> rat option" where
  "py_float net (JInt i) = Some (of_int i)"
| "py_float net (JFloat r) = Some r"
| "py_float net (JBool b) = Some (if b then 1 else 0)"
| "py_float net (JStr s) = float_of_str net s"
| "py_float net _ = None"

fun py_int :: "upstream \<Rightarrow> json \<Rightarrow> int option" where
  "py_int net (JInt i) = Some i"
| "py_int net (JFloat r) = Some (if 0 \<le> r then \<lfloor>r\<rfloor> else \<lceil>r\<rceil>)"
| "py_int net (JBool b) = Some (if b then 1 else 0)"
| "py_int net (JStr s) = int_of_str net s"
| "py_int net _ = None"

text \<open>\<open>float(data.get(key, default))\<close> with a default that is a float already.\<close>

definition float_get :: "upstream \<Rightarrow> (string \<times> json) list \<Rightarrow> string \<Rightarrow> rat \<Rightarrow> rat option" where
  "float_get net d key dflt = (case map_of d key of Some j \<Rightarrow> py_float net j | None \<Rightarrow> Some dflt)"

definition int_get :: "upstream \<Rightarrow> (string \<times> json) list \<Rightarrow> string \<Rightarrow> int \<Rightarrow> int option" where
  "int_get net d key dflt = (case map_of d key of Some j \<Rightarrow> py_int net j | None \<Rightarrow> Some dflt)"

text \<open>
  Lines 825 to 849 of \<open>get_stock_data_twelve\<close>: the record built from the quote \<open>data\<close>;
  \<open>None\<close> when a conversion raises.
\<close>

definition twelve_stock_data ::
  "upstream \<Rightarrow> string \<Rightarrow> (string \<times> json) list \<Rightarrow> stock_data option" where
  "twelve_stock_data net normalized_symbol d =
     (case (case map_of d ''close'' of Some j \<Rightarrow> py_float net j
            | None \<Rightarrow> float_get net d ''price'' 0) of
        None \<Rightarrow> None
      | Some current_price \<Rightarrow>
     (case float_get net d ''previous_close'' current_price of
        None \<Rightarrow> None
      | Some previous_close \<Rightarrow>
     (let daily_change =
            (if previous_close > 0 then PFloat (current_price - previous_close) else PInt 0);
          daily_change_percent =
            (if previous_close > 0
             then PFloat ((current_price - previous_close) / previous_close * 100)
             else PInt 0)
      in
     (case float_get net d ''high'' current_price of None \<Rightarrow> None | Some day_high \<Rightarrow>
     (case float_get net d ''low'' current_price of None \<Rightarrow> None | Some day_low \<Rightarrow>
     (case float_get net d ''open'' current_price of None \<Rightarrow> None | Some open_price \<Rightarrow>
     (case int_get net d ''volume'' 0 of None \<Rightarrow> None | Some volume \<Rightarrow>
        Some [(''symbol'', PStr normalized_symbol),
              (''name'', PStr (normalized_symbol @ '' Inc.'')),
              (''current_price'', PFloat current_price),
              (''currency'', PStr ''USD''),
              (''daily_change'', daily_change),
              (''daily_change_percent'', daily_change_percent),
              (''monthly_change_percent'', PInt 0),
              (''day_high'', PFloat day_high),
              (''day_low'', PFloat day_low),
              (''open_price'', PFloat open_price),
              (''previous_close'', PFloat previous_close),
              (''market_cap'', PInt 0),
              (''sector'', PStr ''N/A''),
              (''industry'', PStr ''N/A''),
              (''volume'', PInt volume),
              (''avg_volume'', PInt 0)])))))))"

text \<open>
  Lines 348 to 365 of \<open>get_stock_data_alphavantage\<close>: the record of a crypto currency,
  built from the latest entry of the daily series; \<open>None\<close> when the close is missing or a
  conversion raises.
\<close>

definition alphavantage_crypto_stock_data ::
  "upstream \<Rightarrow> string \<Rightarrow> string \<Rightarrow> (string \<times> json) list \<Rightarrow> stock_data option" where
  "alphavantage_crypto_stock_data net normalized_symbol crypto_symbol latest_data =
     (case map_of latest_data ''4. close'' of
        None \<Rightarrow> None
      | Some close \<Rightarrow>
     (case py_float net close of
        None \<Rightarrow> None
      | Some current_price \<Rightarrow>
     (case float_get net latest_data ''5. volume'' 0 of
        None \<Rightarrow> None
      | Some volume \<Rightarrow>
        Some [(''symbol'', PStr normalized_symbol),
              (''name'', PStr (crypto_symbol @ '' (Cryptocurrency)'')),
              (''current_price'', PFloat current_price),
              (''currency'', PStr ''USD''),
              (''daily_change'', PInt 0),
              (''daily_change_percent'', PInt 0),
              (''monthly_change_percent'', PInt 0),
              (''year_high'', PFloat (current_price * (12 / 10))),
              (''year_low'', PFloat (current_price * (8 / 10))),
              (''market_cap'', PInt 0),
              (''sector'', PStr ''Cryptocurrency''),
              (''industry'', PStr ''N/A''),
              (''volume'', PFloat volume),
              (''avg_volume'', PInt 0)])))"

definition log_request :: "request \<Rightarrow> 'v world \<Rightarrow> 'v world" where
  "log_request r w = w\<lparr>sent := sent w @ [r]\<rparr>"

text \<open>
  \<open>get_stock_data_alphavantage\<close>. The key is tested inside the \<open>try\<close> block, before any
  request. The \<open>except\<close> clause sorts the text of the exception into four error results.
\<close>

definition get_stock_data_alphavantage ::
  "environ \<Rightarrow> upstream \<Rightarrow> string \<Rightarrow> stock_data world \<Rightarrow> (error + stock_data) \<times> stock_data world"
  where
  "get_stock_data_alphavantage environ net symbol w =
     (let cache_key = ''stock_av_'' @ upper symbol;
          (cached_data, w1) = SimpleCache_get cache_key w
      in if cached_data \<noteq> None \<and> the cached_data \<noteq> [] then (Inr (the cached_data), w1)
         else
           let w2 = wait_for_rate_limit ''alphavantage'' w1;
               normalized_symbol = normalize_symbol symbol;
               api_key = dict_get (CONFIG environ) ''ALPHA_VANTAGE_API_KEY'' None
           in if \<not> truthy api_key then (Inl AlphaVantageNoKey, w2)
              else
                let w3 = log_request (AlphaVantageQuery normalized_symbol (the api_key)) w2 in
                case alphavantage_api net normalized_symbol (the api_key) of
                  Inr stock_data \<Rightarrow> (Inr stock_data, SimpleCache_set cache_key stock_data w3)
                | Inl error_msg \<Rightarrow>
                    if contains ''rate limit'' (lower error_msg)
                       \<or> contains ''calls per'' (lower error_msg)
                    then (Inl (AlphaVantageRateLimit symbol),
                          trigger_backoff ''alphavantage'' 120 w3)
                    else if contains ''not found'' (lower error_msg)
                            \<or> contains ''invalid'' (lower error_msg)
                    then (Inl (AlphaVantageNotFound symbol), w3)
                    else if contains ''Thank you for using Alpha Vantage'' error_msg
                    then (Inl (AlphaVantageBadKey symbol), w3)
                    else (Inl (AlphaVantageError symbol (take 100 error_msg)), w3))"

text \<open>
  \<open>get_stock_data_twelve\<close>. Every failure (a request that raises, a status other than
  200, a body that is not JSON, a body with a \<open>message\<close>, a body without \<open>close\<close> and
  \<open>price\<close>, a conversion that raises) ends in \<open>return get_stock_data_alphavantage(symbol)\<close>.
  A decoded body that is not a JSON object ends there as well: the membership tests are
  true, or they or \<open>data.get\<close> raise.
\<close>

definition get_stock_data_twelve ::
  "environ \<Rightarrow> upstream \<Rightarrow> string \<Rightarrow> stock_data world \<Rightarrow> (error + stock_data) \<times> stock_data world"
  where
  "get_stock_data_twelve environ net symbol w =
     (let cache_key = ''stock_twelve_'' @ upper symbol;
          (cached_data, w1) = SimpleCache_get cache_key w
      in if cached_data \<noteq> None \<and> the cached_data \<noteq> [] then (Inr (the cached_data), w1)
         else
           let w2 = wait_for_rate_limit ''twelvedata'' w1;
               normalized_symbol = normalize_symbol symbol;
               api_key = dict_get (CONFIG environ) ''TWELVE_API_KEY'' (Some ''demo'');
               query = (if normalized_symbol \<in> set [''BTC'', ''ETH'', ''ADA'', ''DOT'', ''SOL'', ''DOGE'']
                        then normalized_symbol @ ''/USD'' else normalized_symbol);
               w3 = log_request (TwelveQuote query api_key) w2
           in case twelve_api net query api_key of
                RequestFailed \<Rightarrow> get_stock_data_alphavantage environ net symbol w3
              | Response status_code body \<Rightarrow>
                  if status_code \<noteq> 200 then get_stock_data_alphavantage environ net symbol w3
                  else
                    (case body of
                       Some (JObj d) \<Rightarrow>
                         if ''message'' \<in> fst ` set d
                         then get_stock_data_alphavantage environ net symbol w3
                         else if ''close'' \<notin> fst ` set d \<and> ''price'' \<notin> fst ` set d
                         then get_stock_data_alphavantage environ net symbol w3
                         else
                           (case twelve_stock_data net normalized_symbol d of
                              Some stock_data \<Rightarrow>
                                (Inr stock_data, SimpleCache_set cache_key stock_data w3)
                            | None \<Rightarrow> get_stock_data_alphavantage environ net symbol w3)
                     | _ \<Rightarrow> get_stock_data_alphavantage environ net symbol w3))"

section \<open>Fetch orchestrator (bot.py, get\_stock\_data)\<close>

text \<open>
  The test of lines 161 to 165 on the result of Twelve Data, without the last conjunct
  \<open>has_alpha_key\<close>: the result is a non-empty dictionary, has no key \<open>error\<close>, and
  \<open>get('daily_change', 0)\<close> and \<open>get('volume', 0)\<close> are both equal to 0.
\<close>

definition no_trading_data :: "error + stock_data \<Rightarrow> bool" where
  "no_trading_data twelve_data =
     (case twelve_data of
        Inl e \<Rightarrow> False
      | Inr q \<Rightarrow> q \<noteq> [] \<and> ''error'' \<notin> fst ` set q
                 \<and> eq_zero (dict_get q ''daily_change'' (PInt 0))
                 \<and> eq_zero (dict_get q ''volume'' (PInt 0)))"

text \<open>\<open>twelve_data and 'error' in twelve_data\<close>.\<close>

definition has_error :: "error + stock_data \<Rightarrow> bool" where
  "has_error twelve_data =
     (case twelve_data of Inl e \<Rightarrow> True | Inr q \<Rightarrow> q \<noteq> [] \<and> ''error'' \<in> fst ` set q)"

definition get_stock_data ::
  "environ \<Rightarrow> upstream \<Rightarrow> string \<Rightarrow> stock_data world \<Rightarrow> (error + stock_data) \<times> stock_data world"
  where
  "get_stock_data environ net symbol w =
     (let has_twelve_key = truthy (dict_get (CONFIG environ) ''TWELVE_API_KEY'' None);
          has_alpha_key = truthy (dict_get (CONFIG environ) ''ALPHA_VANTAGE_API_KEY'' None)
      in if has_twelve_key then
           (let (twelve_data, w1) = get_stock_data_twelve environ net symbol w
            in if no_trading_data twelve_data \<and> has_alpha_key
               then get_stock_data_alphavantage environ net symbol w1
               else (twelve_data, w1))
         else if has_alpha_key then get_stock_data_alphavantage environ net symbol w
         else
           (let (twelve_data, w1) = get_stock_data_twelve environ net symbol w
            in if has_error twelve_data then (Inl NoFinancialApis, w1)
               else (twelve_data, w1)))"

subsection \<open>Example services\<close>

text \<open>
  \<open>parse_zero\<close> converts the text \<open>0\<close> as Python does and stands for the conversions on
  that one text. \<open>refusing\<close> answers every quote request with HTTP 401. \<open>flat_quote\<close>
  answers with a quote whose close equals its previous close and whose volume is zero;
  its second service returns a record with a change of 1.5.
\<close>

definition parse_zero :: upstream where
  "parse_zero =
     \<lparr>twelve_api = (\<lambda>symbol apikey. RequestFailed),
      alphavantage_api = (\<lambda>symbol apikey. Inl ''''),
      float_of_str = (\<lambda>s. if s = ''0'' then Some 0 else None),
      int_of_str = (\<lambda>s. if s = ''0'' then Some 0 else None)\<rparr>"

definition refusing :: upstream where
  "refusing = parse_zero\<lparr>twelve_api := (\<lambda>symbol apikey. Response 401 None)\<rparr>"

definition second_opinion :: stock_data where
  "second_opinion =
     [(''symbol'', PStr ''AAPL''), (''current_price'', PFloat 150),
      (''daily_change'', PFloat (3 / 2)), (''volume'', PInt 1000)]"

definition flat_quote :: upstream where
  "flat_quote = parse_zero
     \<lparr>twelve_api := (\<lambda>symbol apikey.
         Response 200 (Some (JObj [(''close'', JFloat 150), (''previous_close'', JFloat 150),
                                   (''volume'', JInt 0)]))),
      alphavantage_api := (\<lambda>symbol apikey. Inr second_opinion)\<rparr>"


section \<open>Verification of the symbol normalizer\<close>

lemmas str_eval = upper_def upper_char_def ascii_lowercase_def ascii_uppercase_def
  strip_def isspace_def whitespace_def

lemmas tbl_eval = lookup_symbol_def dict_get_def name_to_symbol_def crypto_mapping_def



















section \<open>Verification of the response cache\<close>

lemma fold_delete_filter:
  "fold AList.delete ks al = filter (\<lambda>p. fst p \<notin> set ks) al"
proof (induction ks arbitrary: al)
  case Nil
  show ?case by simp
next
  case (Cons k ks)
  have "fold AList.delete (k # ks) al = fold AList.delete ks (AList.delete k al)"
    by simp
  also have "\<dots> = filter (\<lambda>p. fst p \<notin> set ks) (AList.delete k al)"
    by (rule Cons.IH)
  also have "\<dots> = filter (\<lambda>p. fst p \<notin> set (k # ks)) al"
    by (auto simp: AList.delete_eq split_beta intro: filter_cong)
  finally show ?case .
qed

lemma purge_subset:
  "set (fold AList.delete (expired_keys now al) al) \<subseteq> set al"
  by (auto simp: fold_delete_filter)

lemma purge_length:
  "length (fold AList.delete (expired_keys now al) al) \<le> length al"
  by (simp add: fold_delete_filter)

lemma purge_no_expired:
  assumes "p \<in> set (fold AList.delete (expired_keys now al) al)"
  shows "\<not> is_expired now (snd p)"
proof
  assume expired: "is_expired now (snd p)"
  from assms have "p \<in> set al" and out: "fst p \<notin> set (expired_keys now al)"
    by (simp_all add: fold_delete_filter)
  with expired have "fst p \<in> set (expired_keys now al)"
    unfolding expired_keys_def by (cases p) force
  with out show False by contradiction
qed

lemma to_remove_div: "to_remove al = length al div 5"
proof -
  have "(of_nat (length al) :: rat) * (2 / 10) = of_nat (length al) / of_nat 5"
    by simp
  then have "\<lfloor>(of_nat (length al) :: rat) * (2 / 10)\<rfloor> = int (length al div 5)"
    by (simp only: floor_divide_of_nat_eq)
  then show ?thesis by (simp add: to_remove_def sorted_entries_def)
qed

lemma over_80_percent:
  "((of_nat n :: rat) > of_int m * (8 / 10)) = (4 * m < 5 * int n)"
proof -
  have "((of_int m :: rat) * (8 / 10) < of_nat n) = ((of_int (4 * m) :: rat) < of_int (5 * int n))"
    by (simp add: field_simps)
  also have "\<dots> = (4 * m < 5 * int n)"
    by (rule of_int_less_iff)
  finally show ?thesis .
qed

lemma victims_removed:
  "filter (\<lambda>p. fst p \<notin> fst ` set (take n S)) (take n S) = []"
  by (auto simp: filter_empty_conv)

lemma evict_length:
  "length (fold AList.delete (map fst (take n (sorted_entries al))) al) \<le> length al - n"
proof -
  define S where "S = sorted_entries al"
  define P where "P = (\<lambda>p :: 'a \<times> 'b CacheEntry. fst p \<notin> fst ` set (take n S))"
  have "mset S = mset al" by (simp add: S_def sorted_entries_def)
  then have "size (filter_mset P (mset al)) = size (filter_mset P (mset S))" by simp
  then have "length (filter P al) = length (filter P S)"
    by (simp only: mset_filter [symmetric] size_mset)
  also have "filter P S = filter P (take n S) @ filter P (drop n S)"
    by (simp only: filter_append [symmetric] append_take_drop_id)
  also have "filter P (take n S) = []"
    unfolding P_def by (rule victims_removed)
  finally have "length (filter P al) = length (filter P (drop n S))" by simp
  also have "\<dots> \<le> length (drop n S)" by (rule length_filter_le)
  also have "length (drop n S) = length al - n"
    by (simp add: S_def sorted_entries_def)
  finally show ?thesis by (simp add: fold_delete_filter P_def S_def)
qed

lemma evict_rank:
  assumes x: "x \<in> set (take n (sorted_entries al))"
    and y: "y \<in> set (fold AList.delete (map fst (take n (sorted_entries al))) al)"
  shows "rank x \<le> rank y"
proof -
  define S where "S = sorted_entries al"
  have sorted: "sorted (map rank (take n S) @ map rank (drop n S))"
    by (simp only: map_append [symmetric] append_take_drop_id)
       (simp add: S_def sorted_entries_def)
  from y have "y \<in> set al" and "fst y \<notin> fst ` set (take n S)"
    by (simp_all add: fold_delete_filter S_def)
  then have "y \<in> set S" and "y \<notin> set (take n S)"
    by (auto simp: S_def sorted_entries_def)
  then have "y \<in> set (drop n S)"
    using set_append [of "take n S" "drop n S"] by (simp only: append_take_drop_id) blast
  with x sorted show ?thesis
    by (auto simp: sorted_append S_def)
qed

lemma cleanup_cache:
  "cache (IntelligentCache_cleanup C now) =
     (let live = fold AList.delete (expired_keys now (cache C)) (cache C)
      in if 4 * max_size C < 5 * int (length live)
         then fold AList.delete (map fst (take (length live div 5) (sorted_entries live))) live
         else live)"
  by (simp add: IntelligentCache_cleanup_def Let_def over_80_percent to_remove_div)

lemma cleanup_max_size: "max_size (IntelligentCache_cleanup C now) = max_size C"
  by (simp add: IntelligentCache_cleanup_def Let_def)

lemma cleanup_length:
  assumes "5 \<le> max_size C" and "int (length (cache C)) \<le> max_size C"
  shows "int (length (cache (IntelligentCache_cleanup C now))) + 1 \<le> max_size C"
proof -
  define live where "live = fold AList.delete (expired_keys now (cache C)) (cache C)"
  have live: "int (length live) \<le> max_size C"
    using purge_length [of now "cache C"] assms(2) by (simp add: live_def)
  show ?thesis
  proof (cases "4 * max_size C < 5 * int (length live)")
    case True
    with assms(1) have "5 \<le> length live" by linarith
    then have "1 \<le> length live div 5" by (simp add: div_greater_zero_iff Suc_le_eq)
    moreover have "length (fold AList.delete
        (map fst (take (length live div 5) (sorted_entries live))) live)
          \<le> length live - length live div 5"
      by (rule evict_length)
    ultimately have "int (length (fold AList.delete
        (map fst (take (length live div 5) (sorted_entries live))) live)) + 1
          \<le> int (length live)"
      using \<open>5 \<le> length live\<close> by linarith
    with live True show ?thesis
      by (simp add: cleanup_cache live_def [symmetric])
  next
    case False
    with assms(1) have "int (length live) + 1 \<le> max_size C" by linarith
    with False show ?thesis
      by (simp add: cleanup_cache live_def [symmetric])
  qed
qed

lemma update_length: "length (AList.update k v al) \<le> length al + 1"
  by (induction al) auto

lemmas cache_eval = IntelligentCache_set_def IntelligentCache_get_def
  IntelligentCache_cleanup_def IntelligentCache_init_def expired_keys_def sorted_entries_def
  to_remove_def rank_def is_expired_def touch_def example_key_def Let_def

lemma busy_cache_reachable:
  "busy_cache = run_ops (IntelligentCache_init 5)
     [(0, Store ''a'' 1 100), (1, Store ''b'' 2 100), (2, Store ''c'' 3 100),
      (3, Store ''d'' 4 100), (4, Store ''e'' 5 100),
      (5, Read ''a''), (6, Read ''b''), (7, Read ''c''), (8, Read ''d''),
      (10, Read ''a''), (11, Read ''b''), (12, Read ''c''), (13, Read ''d''),
      (14, Read ''e'')]"
  by (simp add: busy_cache_def cache_eval)

text \<open>
  Claim C3, as stated, fails twice. With capacity one, a second \<open>set\<close> leaves two entries
  (nothing has expired, and twenty per cent of one entry is no entry). In \<open>busy_cache\<close>,
  \<open>e\<close> is the entry accessed last, and storing \<open>f\<close> evicts exactly \<open>e\<close>, whose access
  count is the lowest.
\<close>

theorem set_capacity_counterexample:
  "max_size (IntelligentCache_set example_key
       (IntelligentCache_set example_key (IntelligentCache_init 1) 0 ''ns'' (1::nat) 100 ''a'')
       0 ''ns'' 2 100 ''b'') = 1
   \<and> map fst (cache (IntelligentCache_set example_key
       (IntelligentCache_set example_key (IntelligentCache_init 1) 0 ''ns'' (1::nat) 100 ''a'')
       0 ''ns'' 2 100 ''b'')) = [''ns:a'', ''ns:b'']
   \<and> map fst (cache busy_cache) = [''ns:a'', ''ns:b'', ''ns:c'', ''ns:d'', ''ns:e'']
   \<and> map (last_access \<circ> snd) (cache busy_cache) = [10, 11, 12, 13, 14]
   \<and> map fst (cache (IntelligentCache_set example_key busy_cache 15 ''ns'' 6 100 ''f''))
       = [''ns:a'', ''ns:b'', ''ns:c'', ''ns:d'', ''ns:f'']"
  by (simp add: busy_cache_def cache_eval)

text \<open>
  Claim C3, amended. For a capacity of at least five and a store within its capacity,
  \<open>set\<close> leaves the store within its capacity and keeps the capacity. The new entry is
  written after \<open>_cleanup\<close> when the store has reached its capacity. \<open>_cleanup\<close> first
  removes every expired entry; if more than 80 per cent of the capacity remain, it removes
  the first fifth (rounded down) of the remaining entries in ascending order of
  (access count, last access), so that every removed entry ranks no higher than every
  entry kept.
\<close>

theorem set_capacity:
  assumes "5 \<le> max_size C" and "int (length (cache C)) \<le> max_size C"
  shows "int (length (cache (IntelligentCache_set G C now ns d t args))) \<le> max_size C
    \<and> max_size (IntelligentCache_set G C now ns d t args) = max_size C
    \<and> cache (IntelligentCache_set G C now ns d t args) =
        AList.update (G ns args)
          \<lparr>data = d, timestamp = now, ttl = t, access_count = 0, last_access = now\<rparr>
          (if max_size C \<le> int (length (cache C))
           then cache (IntelligentCache_cleanup C now) else cache C)
    \<and> (let live = fold AList.delete (expired_keys now (cache C)) (cache C);
            victims = take (length live div 5) (sorted_entries live);
            kept = cache (IntelligentCache_cleanup C now)
        in (\<forall>p \<in> set live. \<not> is_expired now (snd p))
         \<and> kept = (if 4 * max_size C < 5 * int (length live)
                    then fold AList.delete (map fst victims) live else live)
         \<and> (4 * max_size C < 5 * int (length live) \<longrightarrow>
              (\<forall>x \<in> set victims. \<forall>y \<in> set kept. rank x \<le> rank y)))"
proof (intro conjI)
  show "int (length (cache (IntelligentCache_set G C now ns d t args))) \<le> max_size C"
  proof (cases "max_size C \<le> int (length (cache C))")
    case True
    have "int (length (cache (IntelligentCache_cleanup C now))) + 1 \<le> max_size C"
      using assms by (rule cleanup_length)
    moreover have "length (AList.update (G ns args)
        \<lparr>data = d, timestamp = now, ttl = t, access_count = 0, last_access = now\<rparr>
        (cache (IntelligentCache_cleanup C now)))
          \<le> length (cache (IntelligentCache_cleanup C now)) + 1"
      by (rule update_length)
    ultimately show ?thesis
      using True by (simp add: IntelligentCache_set_def Let_def)
  next
    case False
    moreover have "length (AList.update (G ns args)
        \<lparr>data = d, timestamp = now, ttl = t, access_count = 0, last_access = now\<rparr>
        (cache C)) \<le> length (cache C) + 1"
      by (rule update_length)
    ultimately show ?thesis
      by (simp add: IntelligentCache_set_def Let_def)
  qed
next
  show "max_size (IntelligentCache_set G C now ns d t args) = max_size C"
    by (simp add: IntelligentCache_set_def Let_def cleanup_max_size)
next
  show "cache (IntelligentCache_set G C now ns d t args) =
        AList.update (G ns args)
          \<lparr>data = d, timestamp = now, ttl = t, access_count = 0, last_access = now\<rparr>
          (if max_size C \<le> int (length (cache C))
           then cache (IntelligentCache_cleanup C now) else cache C)"
    by (simp add: IntelligentCache_set_def Let_def)
next
  show "let live = fold AList.delete (expired_keys now (cache C)) (cache C);
            victims = take (length live div 5) (sorted_entries live);
            kept = cache (IntelligentCache_cleanup C now)
        in (\<forall>p \<in> set live. \<not> is_expired now (snd p))
         \<and> kept = (if 4 * max_size C < 5 * int (length live)
                    then fold AList.delete (map fst victims) live else live)
         \<and> (4 * max_size C < 5 * int (length live) \<longrightarrow>
              (\<forall>x \<in> set victims. \<forall>y \<in> set kept. rank x \<le> rank y))"
    unfolding Let_def
  proof (intro conjI ballI impI)
    fix p
    assume "p \<in> set (fold AList.delete (expired_keys now (cache C)) (cache C))"
    then show "\<not> is_expired now (snd p)" by (rule purge_no_expired)
  next
    show "cache (IntelligentCache_cleanup C now) =
      (if 4 * max_size C < 5 * int (length (fold AList.delete (expired_keys now (cache C)) (cache C)))
       then fold AList.delete (map fst (take
             (length (fold AList.delete (expired_keys now (cache C)) (cache C)) div 5)
             (sorted_entries (fold AList.delete (expired_keys now (cache C)) (cache C)))))
             (fold AList.delete (expired_keys now (cache C)) (cache C))
       else fold AList.delete (expired_keys now (cache C)) (cache C))"
      by (simp add: cleanup_cache Let_def)
  next
    fix x y
    assume over: "4 * max_size C
        < 5 * int (length (fold AList.delete (expired_keys now (cache C)) (cache C)))"
      and x: "x \<in> set (take
             (length (fold AList.delete (expired_keys now (cache C)) (cache C)) div 5)
             (sorted_entries (fold AList.delete (expired_keys now (cache C)) (cache C))))"
      and y: "y \<in> set (cache (IntelligentCache_cleanup C now))"
    from y over have "y \<in> set (fold AList.delete (map fst (take
             (length (fold AList.delete (expired_keys now (cache C)) (cache C)) div 5)
             (sorted_entries (fold AList.delete (expired_keys now (cache C)) (cache C)))))
             (fold AList.delete (expired_keys now (cache C)) (cache C)))"
      by (simp add: cleanup_cache Let_def)
    with x show "rank x \<le> rank y" by (rule evict_rank)
  qed
qed

theorem set_capacity_witness:
  "5 \<le> max_size busy_cache \<and> int (length (cache busy_cache)) \<le> max_size busy_cache
   \<and> int (length (cache (IntelligentCache_set example_key busy_cache 15 ''ns'' 6 100 ''f'')))
       \<le> max_size busy_cache"
proof -
  have h1: "5 \<le> max_size busy_cache" by (simp add: busy_cache_def)
  have h2: "int (length (cache busy_cache)) \<le> max_size busy_cache"
    by (simp add: busy_cache_def)
  from set_capacity [OF h1 h2, where G = example_key and now = 15 and ns = "''ns''"
      and d = 6 and t = 100 and args = "''f''"]
  have "int (length (cache (IntelligentCache_set example_key busy_cache 15 ''ns'' 6 100 ''f'')))
       \<le> max_size busy_cache" by (rule conjunct1)
  with h1 h2 show ?thesis by simp
qed


lemma get_after_set:
  "IntelligentCache_get G (IntelligentCache_set G C t0 ns d t args) now ns args =
     (let C' = IntelligentCache_set G C t0 ns d t args;
          entry = \<lparr>data = d, timestamp = t0, ttl = t, access_count = 0, last_access = t0\<rparr>
      in if of_int t < now - t0
         then (None, C'\<lparr>cache := AList.delete (G ns args) (cache C'), misses := misses C' + 1\<rparr>)
         else (Some d, C'\<lparr>cache := AList.update (G ns args) (touch now entry) (cache C'),
                         hits := hits C' + 1\<rparr>))"
proof -
  have "map_of (cache (IntelligentCache_set G C t0 ns d t args)) (G ns args) =
          Some \<lparr>data = d, timestamp = t0, ttl = t, access_count = 0, last_access = t0\<rparr>"
    by (simp add: IntelligentCache_set_def Let_def update_conv')
  then show ?thesis
    by (simp add: IntelligentCache_get_def Let_def is_expired_def)
qed




text \<open>
  Claim C5. Round trip: for every namespace, query, value and every ttl greater than zero,
  \<open>set\<close> followed by \<open>get\<close> at the same clock reading returns the value.
\<close>

theorem set_get_round_trip:
  "0 < t \<Longrightarrow>
     fst (IntelligentCache_get G (IntelligentCache_set G C now ns d t args) now ns args) = Some d"
proof -
  assume "0 < t"
  then have "\<not> rat_of_int t < now - now" by simp
  then show ?thesis
    by (simp only: get_after_set Let_def if_False fst_conv)
qed

theorem set_get_round_trip_witness:
  "(0::int) < 300
   \<and> fst (IntelligentCache_get example_key
        (IntelligentCache_set example_key busy_cache 15 ''ns'' 6 300 ''f'') 15 ''ns'' ''f'')
       = Some 6"
proof -
  have h: "(0::int) < 300" by simp
  from set_get_round_trip [OF h, where G = example_key and C = busy_cache and now = 15
      and ns = "''ns''" and d = 6 and args = "''f''"] h
  show ?thesis by blast
qed

section \<open>Verification of the rate limiter\<close>

lemmas limiter_eval = wait_for_rate_limit_def trigger_backoff_def spec_wait_for_slot_def
  sleep_def start_def SimpleCache_init_def backoff_wait_def interval_wait_def Let_def

text \<open>
  Claim C2, as stated, fails. A request at time 0 is followed by \<open>trigger_backoff(p, 60)\<close>;
  a call at time 5 sleeps through the backoff window (to time 60) and then a further
  3 seconds for the minimum interval, computed from the time read on entry. The algorithm
  of the specification returns at time 60.
\<close>

theorem wait_for_rate_limit_counterexample:
  "clock (wait_for_rate_limit ''p''
      ((trigger_backoff ''p'' 60 (wait_for_rate_limit ''p'' (start :: nat world)))\<lparr>clock := 5\<rparr>))
     = 63
   \<and> clock (spec_wait_for_slot ''p''
      ((trigger_backoff ''p'' 60 (wait_for_rate_limit ''p'' (start :: nat world)))\<lparr>clock := 5\<rparr>))
     = 60"
  by (simp add: limiter_eval)

lemma wait_for_rate_limit_clock:
  "clock (wait_for_rate_limit p w) = clock w + backoff_wait p w + interval_wait p w"
  by (simp add: limiter_eval split: option.splits)

lemma wait_for_rate_limit_last:
  "last_request_time (bot_cache (wait_for_rate_limit p w)) p
     = Some (clock (wait_for_rate_limit p w))"
  by (simp add: limiter_eval split: option.splits)

lemma wait_for_rate_limit_spec:
  "backoff_wait p w = 0 \<or> interval_wait p w = 0 \<Longrightarrow>
     wait_for_rate_limit p w = spec_wait_for_slot p w"
  by (auto simp add: limiter_eval split: option.splits if_splits)

lemma backoff_wait_triggered:
  "clock w < t + seconds \<Longrightarrow> t \<le> clock w \<Longrightarrow>
     clock w + backoff_wait p (w\<lparr>bot_cache := (bot_cache w)
         \<lparr>rate_limit_backoff := (rate_limit_backoff (bot_cache w))(p \<mapsto> t + seconds)\<rparr>\<rparr>)
       = t + seconds"
  by (simp add: backoff_wait_def)

lemma interval_wait_nonneg: "0 \<le> interval_wait p w"
  by (simp add: interval_wait_def split: option.splits)

text \<open>
  Claim C2, amended. \<open>wait_for_rate_limit\<close> reads the time once, on entry. If a backoff
  instant exists for the provider and lies in the future, it sleeps until that instant;
  then, not as an alternative, if less than the minimum interval lay between the last
  request and the entry, it sleeps for the remainder as computed on entry; then it
  records the current time as the last request time. So the call returns at entry time
  plus both waits, it coincides with the algorithm of the specification whenever at most
  one wait is due, and after \<open>trigger_backoff(p, 60)\<close> a call inside the window returns no
  earlier than the end of the window, later by the interval wait when one is due.
\<close>

theorem wait_for_rate_limit_blocks:
  "clock (wait_for_rate_limit p w) = clock w + backoff_wait p w + interval_wait p w
   \<and> last_request_time (bot_cache (wait_for_rate_limit p w)) p
       = Some (clock (wait_for_rate_limit p w))
   \<and> (backoff_wait p w = 0 \<or> interval_wait p w = 0 \<longrightarrow>
        wait_for_rate_limit p w = spec_wait_for_slot p w)
   \<and> (\<forall>later. clock w \<le> later \<and> later < clock w + 60 \<longrightarrow>
        clock (wait_for_rate_limit p ((trigger_backoff p 60 w)\<lparr>clock := later\<rparr>))
          = clock w + 60 + interval_wait p ((trigger_backoff p 60 w)\<lparr>clock := later\<rparr>)
        \<and> clock w + 60 \<le> clock (wait_for_rate_limit p ((trigger_backoff p 60 w)\<lparr>clock := later\<rparr>)))"
proof (intro conjI allI impI)
  show "clock (wait_for_rate_limit p w) = clock w + backoff_wait p w + interval_wait p w"
    by (rule wait_for_rate_limit_clock)
  show "last_request_time (bot_cache (wait_for_rate_limit p w)) p
       = Some (clock (wait_for_rate_limit p w))"
    by (rule wait_for_rate_limit_last)
  show "wait_for_rate_limit p w = spec_wait_for_slot p w"
    if "backoff_wait p w = 0 \<or> interval_wait p w = 0"
    using that by (rule wait_for_rate_limit_spec)
next
  fix later
  assume window: "clock w \<le> later \<and> later < clock w + 60"
  define w' where "w' = (trigger_backoff p 60 w)\<lparr>clock := later\<rparr>"
  have "backoff_wait p w' = clock w + 60 - later"
    using window by (simp add: w'_def trigger_backoff_def backoff_wait_def)
  moreover have "clock w' = later" by (simp add: w'_def)
  ultimately show eq: "clock (wait_for_rate_limit p w')
      = clock w + 60 + interval_wait p w'"
    by (simp add: wait_for_rate_limit_clock)
  show "clock w + 60 \<le> clock (wait_for_rate_limit p w')"
    using eq interval_wait_nonneg [of p w'] by simp
qed

theorem wait_for_rate_limit_blocks_witness:
  "backoff_wait ''p'' (wait_for_rate_limit ''p'' (start :: nat world)) = 0
   \<and> wait_for_rate_limit ''p'' (wait_for_rate_limit ''p'' (start :: nat world))
       = spec_wait_for_slot ''p'' (wait_for_rate_limit ''p'' (start :: nat world))
   \<and> clock (wait_for_rate_limit ''p'' (start :: nat world)) \<le> 5
   \<and> (5::rat) < clock (wait_for_rate_limit ''p'' (start :: nat world)) + 60
   \<and> clock (wait_for_rate_limit ''p''
        ((trigger_backoff ''p'' 60 (wait_for_rate_limit ''p'' (start :: nat world)))
           \<lparr>clock := 5\<rparr>)) = 63"
proof -
  define w :: "nat world" where "w = wait_for_rate_limit ''p'' start"
  have h1: "backoff_wait ''p'' w = 0" by (simp add: w_def limiter_eval)
  have h2: "clock w \<le> 5 \<and> 5 < clock w + 60" by (simp add: w_def limiter_eval)
  have i: "interval_wait ''p'' ((trigger_backoff ''p'' 60 w)\<lparr>clock := 5\<rparr>) = 3"
    by (simp add: w_def limiter_eval)
  have c: "clock w = 0" by (simp add: w_def limiter_eval)
  from wait_for_rate_limit_blocks [of "''p''" w] h1
  have r1: "wait_for_rate_limit ''p'' w = spec_wait_for_slot ''p'' w" by blast
  from wait_for_rate_limit_blocks [of "''p''" w] h2
  have "clock (wait_for_rate_limit ''p'' ((trigger_backoff ''p'' 60 w)\<lparr>clock := 5\<rparr>))
          = clock w + 60 + interval_wait ''p'' ((trigger_backoff ''p'' 60 w)\<lparr>clock := 5\<rparr>)"
    by blast
  then have r2: "clock (wait_for_rate_limit ''p'' ((trigger_backoff ''p'' 60 w)\<lparr>clock := 5\<rparr>)) = 63"
    by (simp add: i c)
  from h1 r1 h2 r2 show ?thesis unfolding w_def by blast
qed

section \<open>Verification of the weather fetch\<close>

lemmas lower_eval = lower_def lower_char_def ascii_lowercase_def ascii_uppercase_def
  latin1_lowercase_def latin1_uppercase_def

lemmas weather_eval = get_weather_data_def SimpleCache_get_def SimpleCache_set_def
  CONFIG_def dict_get_def truthy_def

lemma city_variations_Cordoba:
  "city_variations ''Cordoba'' =
     [''Cordoba'', ''Cordoba,Argentina'', ''Cordoba,AR'',
      ''C'' @ [CHR 0xF3] @ ''rdoba,Argentina'', ''Cordoba,Argentina'',
      ''C'' @ [CHR 0xF3] @ ''rdoba,AR'', ''Cordoba,AR'']"
  by (simp add: city_variations_def lower_eval)

lemma lower_Cordoba: "lower ''Cordoba'' = ''cordoba''"
  by (simp add: lower_eval)

text \<open>
  Claim C9, as stated, fails twice. With a key configured, a first variation that returns
  HTTP 200 with a body that cannot be read is passed over, and the result comes from the
  second variation. With no key configured, an error result is returned before any
  variation has been tried, although every request would have succeeded.
\<close>

theorem get_weather_data_counterexample:
  "weather_current garbled_first ''Cordoba'' = Response 200 None
   \<and> fst (get_weather_data [''WEATHER_API_KEY'' \<mapsto> ''k''] garbled_first ''Cordoba'' start)
       = Inr (21, [])
   \<and> sent (snd (get_weather_data [''WEATHER_API_KEY'' \<mapsto> ''k''] garbled_first ''Cordoba'' start))
       = [WeatherCurrent ''Cordoba'', WeatherCurrent ''Cordoba,Argentina'',
          WeatherForecast ''Cordoba,Argentina'']
   \<and> weather_current always_fine ''Cordoba'' = Response 200 (Some 21)
   \<and> fst (get_weather_data Map.empty always_fine ''Cordoba'' start) = Inl WeatherNotConfigured
   \<and> sent (snd (get_weather_data Map.empty always_fine ''Cordoba'' start)) = []"
  by (simp add: weather_eval city_variations_Cordoba lower_Cordoba garbled_first_def
      always_fine_def limiter_eval)

lemma try_variations_no_key:
  "\<not> truthy api_key \<Longrightarrow> try_variations api_key api cache_key (v # vs) w
     = (Some (Inl WeatherNotConfigured), w)"
  by simp

lemma try_variations_skip:
  assumes "truthy api_key" and "\<not> usable api v"
  shows "try_variations api_key api cache_key (v # vs) w
     = try_variations api_key api cache_key vs (w\<lparr>sent := sent w @ [WeatherCurrent v]\<rparr>)"
  using assms
  by (simp add: usable_def Let_def split: response.splits option.splits)

lemma try_variations_hit:
  assumes "truthy api_key" and "usable api v"
  shows "try_variations api_key api cache_key (v # vs) w
     = (Some (Inr (current_of api v, weather_forecast api v)),
        SimpleCache_set cache_key (current_of api v, weather_forecast api v)
          (w\<lparr>sent := sent w @ [WeatherCurrent v, WeatherForecast v]\<rparr>))"
  using assms
  by (simp add: usable_def current_of_def Let_def split: response.splits option.splits)

lemma try_variations_first_usable:
  assumes "truthy api_key"
  shows "try_variations api_key api cache_key vs w =
     (case dropWhile (\<lambda>v. \<not> usable api v) vs of
        [] \<Rightarrow> (None, w\<lparr>sent := sent w @ map WeatherCurrent vs\<rparr>)
      | v # rest \<Rightarrow>
          (Some (Inr (current_of api v, weather_forecast api v)),
           SimpleCache_set cache_key (current_of api v, weather_forecast api v)
             (w\<lparr>sent := sent w @ map WeatherCurrent (takeWhile (\<lambda>v. \<not> usable api v) vs)
                            @ [WeatherCurrent v, WeatherForecast v]\<rparr>)))"
proof (induction vs arbitrary: w)
  case Nil
  show ?case by simp
next
  case (Cons v vs)
  show ?case
  proof (cases "usable api v")
    case True
    with assms show ?thesis by (simp only: try_variations_hit) simp
  next
    case False
    with assms have step: "try_variations api_key api cache_key (v # vs) w
        = try_variations api_key api cache_key vs (w\<lparr>sent := sent w @ [WeatherCurrent v]\<rparr>)"
      by (rule try_variations_skip)
    define found where "found = dropWhile (\<lambda>v. \<not> usable api v) vs"
    have drop: "dropWhile (\<lambda>v. \<not> usable api v) (v # vs) = found"
      and take: "takeWhile (\<lambda>v. \<not> usable api v) (v # vs)
                   = v # takeWhile (\<lambda>v. \<not> usable api v) vs"
      using False by (simp_all add: found_def)
    show ?thesis
      unfolding step Cons.IH drop take found_def [symmetric]
      by (cases found) simp_all
  qed
qed

lemma get_weather_data_miss:
  assumes "SimpleCache_get (''weather_'' @ lower city) w = (None, w1)"
  shows "get_weather_data environ api city w =
     (case try_variations (environ ''WEATHER_API_KEY'') api (''weather_'' @ lower city)
             (city_variations city) (wait_for_rate_limit ''weatherapi'' w1) of
        (Some result, w3) \<Rightarrow> (result, w3)
      | (None, w3) \<Rightarrow> (Inl (CityNotFound city), w3))"
proof -
  have "dict_get (CONFIG environ) ''WEATHER_API_KEY'' None = environ ''WEATHER_API_KEY''"
    by (simp add: CONFIG_def dict_get_def)
  with assms show ?thesis
    by (simp add: get_weather_data_def Let_def del: try_variations.simps)
qed

text \<open>
  Claim C9, amended. For \<open>Cordoba\<close> the candidate queries are, in order, the plain name,
  the name with \<open>,Argentina\<close>, the name with \<open>,AR\<close>, and the four hard-coded variants.
  For every city that is not in the cache: with a weather key configured,
  \<open>get_weather_data\<close> waits for its rate-limit slot and requests the candidates in order
  up to the first one that returns HTTP 200 with a readable body; it returns and caches
  that result, or returns the city-not-found error when no candidate is usable; with no
  weather key configured it returns the configuration error and sends no request.
\<close>

theorem get_weather_data_variations:
  assumes miss: "SimpleCache_get (''weather_'' @ lower city) w = (None, w1)"
  shows "city_variations ''Cordoba'' =
     [''Cordoba'', ''Cordoba,Argentina'', ''Cordoba,AR'',
      ''C'' @ [CHR 0xF3] @ ''rdoba,Argentina'', ''Cordoba,Argentina'',
      ''C'' @ [CHR 0xF3] @ ''rdoba,AR'', ''Cordoba,AR'']
   \<and> (truthy (environ ''WEATHER_API_KEY'') \<longrightarrow>
        get_weather_data environ api city w =
          (let w2 = wait_for_rate_limit ''weatherapi'' w1;
               tried = takeWhile (\<lambda>v. \<not> usable api v) (city_variations city)
           in case dropWhile (\<lambda>v. \<not> usable api v) (city_variations city) of
                [] \<Rightarrow> (Inl (CityNotFound city),
                       w2\<lparr>sent := sent w2 @ map WeatherCurrent (city_variations city)\<rparr>)
              | v # rest \<Rightarrow>
                  (Inr (current_of api v, weather_forecast api v),
                   SimpleCache_set (''weather_'' @ lower city)
                     (current_of api v, weather_forecast api v)
                     (w2\<lparr>sent := sent w2 @ map WeatherCurrent tried
                                    @ [WeatherCurrent v, WeatherForecast v]\<rparr>))))
   \<and> (\<not> truthy (environ ''WEATHER_API_KEY'') \<longrightarrow>
        get_weather_data environ api city w =
          (Inl WeatherNotConfigured, wait_for_rate_limit ''weatherapi'' w1))"
proof (intro conjI impI)
  show "city_variations ''Cordoba'' =
     [''Cordoba'', ''Cordoba,Argentina'', ''Cordoba,AR'',
      ''C'' @ [CHR 0xF3] @ ''rdoba,Argentina'', ''Cordoba,Argentina'',
      ''C'' @ [CHR 0xF3] @ ''rdoba,AR'', ''Cordoba,AR'']"
    by (rule city_variations_Cordoba)
next
  assume key: "truthy (environ ''WEATHER_API_KEY'')"
  show "get_weather_data environ api city w =
          (let w2 = wait_for_rate_limit ''weatherapi'' w1;
               tried = takeWhile (\<lambda>v. \<not> usable api v) (city_variations city)
           in case dropWhile (\<lambda>v. \<not> usable api v) (city_variations city) of
                [] \<Rightarrow> (Inl (CityNotFound city),
                       w2\<lparr>sent := sent w2 @ map WeatherCurrent (city_variations city)\<rparr>)
              | v # rest \<Rightarrow>
                  (Inr (current_of api v, weather_forecast api v),
                   SimpleCache_set (''weather_'' @ lower city)
                     (current_of api v, weather_forecast api v)
                     (w2\<lparr>sent := sent w2 @ map WeatherCurrent tried
                                    @ [WeatherCurrent v, WeatherForecast v]\<rparr>)))"
  proof -
    define found where "found = dropWhile (\<lambda>v. \<not> usable api v) (city_variations city)"
    show ?thesis
      unfolding get_weather_data_miss [OF miss] try_variations_first_usable [OF key] Let_def
        found_def [symmetric]
      by (cases found) simp_all
  qed
next
  assume no_key: "\<not> truthy (environ ''WEATHER_API_KEY'')"
  have "city_variations city = city # tl (city_variations city)"
    by (simp add: city_variations_def)
  then have "try_variations (environ ''WEATHER_API_KEY'') api (''weather_'' @ lower city)
        (city_variations city) (wait_for_rate_limit ''weatherapi'' w1)
      = (Some (Inl WeatherNotConfigured), wait_for_rate_limit ''weatherapi'' w1)"
    using try_variations_no_key [OF no_key] by metis
  then show "get_weather_data environ api city w =
        (Inl WeatherNotConfigured, wait_for_rate_limit ''weatherapi'' w1)"
    unfolding get_weather_data_miss [OF miss] by simp
qed

theorem get_weather_data_variations_witness:
  "SimpleCache_get (''weather_'' @ lower ''Cordoba'') (start :: (nat \<times> nat list) world)
      = (None, start)
   \<and> truthy ([''WEATHER_API_KEY'' \<mapsto> ''k''] ''WEATHER_API_KEY'')
   \<and> fst (get_weather_data [''WEATHER_API_KEY'' \<mapsto> ''k''] always_404 ''Cordoba'' start)
       = Inl (CityNotFound ''Cordoba'')
   \<and> sent (snd (get_weather_data [''WEATHER_API_KEY'' \<mapsto> ''k''] always_404 ''Cordoba'' start))
       = map WeatherCurrent (city_variations ''Cordoba'')
   \<and> \<not> truthy (Map.empty ''WEATHER_API_KEY'')
   \<and> fst (get_weather_data Map.empty always_404 ''Cordoba'' start) = Inl WeatherNotConfigured"
proof -
  have miss: "SimpleCache_get (''weather_'' @ lower ''Cordoba'')
      (start :: (nat \<times> nat list) world) = (None, start)"
    by (simp add: SimpleCache_get_def start_def SimpleCache_init_def)
  have key: "truthy ([''WEATHER_API_KEY'' \<mapsto> ''k''] ''WEATHER_API_KEY'')"
    by (simp add: truthy_def)
  have no_key: "\<not> truthy (Map.empty ''WEATHER_API_KEY'')"
    by (simp add: truthy_def)
  have none: "dropWhile (\<lambda>v. \<not> usable always_404 v) vs = []" for vs
    by (simp add: usable_def always_404_def)
  from get_weather_data_variations [OF miss, where environ = "[''WEATHER_API_KEY'' \<mapsto> ''k'']"
      and api = always_404] key
  have "get_weather_data [''WEATHER_API_KEY'' \<mapsto> ''k''] always_404 ''Cordoba'' start =
      (Inl (CityNotFound ''Cordoba''),
       (wait_for_rate_limit ''weatherapi'' start)
         \<lparr>sent := sent (wait_for_rate_limit ''weatherapi'' (start :: (nat \<times> nat list) world))
             @ map WeatherCurrent (city_variations ''Cordoba'')\<rparr>)"
    by (simp add: none Let_def)
  then have r1: "fst (get_weather_data [''WEATHER_API_KEY'' \<mapsto> ''k''] always_404 ''Cordoba'' start)
       = Inl (CityNotFound ''Cordoba'')"
    and r2: "sent (snd (get_weather_data [''WEATHER_API_KEY'' \<mapsto> ''k''] always_404 ''Cordoba'' start))
       = map WeatherCurrent (city_variations ''Cordoba'')"
    by (simp_all add: limiter_eval)
  from get_weather_data_variations [OF miss, where environ = Map.empty and api = always_404]
    no_key
  have r3: "fst (get_weather_data Map.empty always_404 ''Cordoba'' start)
      = Inl WeatherNotConfigured"
    by simp
  from miss key r1 r2 no_key r3 show ?thesis by blast
qed

section \<open>Verification of the quote records and the orchestrator\<close>

lemmas stock_eval = get_stock_data_def get_stock_data_twelve_def
  get_stock_data_alphavantage_def twelve_stock_data_def alphavantage_crypto_stock_data_def
  float_get_def int_get_def no_trading_data_def has_error_def log_request_def
  SimpleCache_get_def SimpleCache_set_def CONFIG_def dict_get_def truthy_def

lemma AAPL_clean: "normalize_symbol ''AAPL'' = ''AAPL''" "upper ''AAPL'' = ''AAPL''"
  by (simp_all add: normalize_symbol_def str_eval tbl_eval)

lemma CONFIG_get:
  "dict_get (CONFIG environ) ''TWELVE_API_KEY'' dflt = environ ''TWELVE_API_KEY''"
  "dict_get (CONFIG environ) ''ALPHA_VANTAGE_API_KEY'' dflt = environ ''ALPHA_API_KEY''"
  by (simp_all add: CONFIG_def dict_get_def)

text \<open>
  Claim C1. With the Twelve Data key configured, \<open>get_stock_data\<close> returns the result of
  the Alpha Vantage adapter when the Twelve Data result is present, has no error tag, has
  \<open>daily_change\<close> and \<open>volume\<close> both equal to 0 (read with \<open>get\<close> and the default 0) and
  the Alpha Vantage key is configured; in every other case it returns the Twelve Data
  result.
\<close>

theorem get_stock_data_primary:
  assumes "truthy (environ ''TWELVE_API_KEY'')"
  shows "get_stock_data environ net symbol w =
     (let (twelve_data, w1) = get_stock_data_twelve environ net symbol w
      in if (case twelve_data of
               Inl e \<Rightarrow> False
             | Inr q \<Rightarrow> q \<noteq> [] \<and> ''error'' \<notin> fst ` set q
                        \<and> eq_zero (dict_get q ''daily_change'' (PInt 0))
                        \<and> eq_zero (dict_get q ''volume'' (PInt 0)))
            \<and> truthy (environ ''ALPHA_API_KEY'')
         then get_stock_data_alphavantage environ net symbol w1
         else (twelve_data, w1))"
proof -
  obtain twelve_data w1
    where run: "get_stock_data_twelve environ net symbol w = (twelve_data, w1)"
    by (cases "get_stock_data_twelve environ net symbol w")
  have "get_stock_data environ net symbol w =
     (if no_trading_data twelve_data \<and> truthy (environ ''ALPHA_API_KEY'')
      then get_stock_data_alphavantage environ net symbol w1 else (twelve_data, w1))"
    using assms by (simp add: get_stock_data_def CONFIG_get run)
  then show ?thesis
    by (simp add: run no_trading_data_def)
qed

lemma flat_quote_twelve:
  "fst (get_stock_data_twelve environ flat_quote ''AAPL'' start) =
     Inr [(''symbol'', PStr ''AAPL''), (''name'', PStr ''AAPL Inc.''),
          (''current_price'', PFloat 150), (''currency'', PStr ''USD''),
          (''daily_change'', PFloat 0), (''daily_change_percent'', PFloat 0),
          (''monthly_change_percent'', PInt 0), (''day_high'', PFloat 150),
          (''day_low'', PFloat 150), (''open_price'', PFloat 150),
          (''previous_close'', PFloat 150), (''market_cap'', PInt 0),
          (''sector'', PStr ''N/A''), (''industry'', PStr ''N/A''),
          (''volume'', PInt 0), (''avg_volume'', PInt 0)]"
  by (simp add: get_stock_data_twelve_def twelve_stock_data_def float_get_def int_get_def
      log_request_def SimpleCache_get_def SimpleCache_set_def AAPL_clean flat_quote_def
      parse_zero_def limiter_eval)

lemma flat_quote_alphavantage:
  "fst (get_stock_data_alphavantage [''TWELVE_API_KEY'' \<mapsto> ''t'', ''ALPHA_API_KEY'' \<mapsto> ''a'']
          flat_quote ''AAPL'' (snd (get_stock_data_twelve
             [''TWELVE_API_KEY'' \<mapsto> ''t'', ''ALPHA_API_KEY'' \<mapsto> ''a''] flat_quote ''AAPL'' start)))
     = Inr second_opinion"
  by (simp add: get_stock_data_alphavantage_def get_stock_data_twelve_def twelve_stock_data_def
      float_get_def int_get_def log_request_def SimpleCache_get_def SimpleCache_set_def
      CONFIG_get truthy_def AAPL_clean flat_quote_def parse_zero_def second_opinion_def
      limiter_eval)

theorem get_stock_data_primary_witness:
  "truthy ([''TWELVE_API_KEY'' \<mapsto> ''t'', ''ALPHA_API_KEY'' \<mapsto> ''a''] ''TWELVE_API_KEY'')
   \<and> fst (get_stock_data [''TWELVE_API_KEY'' \<mapsto> ''t'', ''ALPHA_API_KEY'' \<mapsto> ''a'']
            flat_quote ''AAPL'' start) = Inr second_opinion
   \<and> truthy ([''TWELVE_API_KEY'' \<mapsto> ''t''] ''TWELVE_API_KEY'')
   \<and> fst (get_stock_data [''TWELVE_API_KEY'' \<mapsto> ''t''] flat_quote ''AAPL'' start)
       = fst (get_stock_data_twelve [''TWELVE_API_KEY'' \<mapsto> ''t''] flat_quote ''AAPL'' start)"
proof -
  have both: "truthy ([''TWELVE_API_KEY'' \<mapsto> ''t'', ''ALPHA_API_KEY'' \<mapsto> ''a''] ''TWELVE_API_KEY'')"
    and one: "truthy ([''TWELVE_API_KEY'' \<mapsto> ''t''] ''TWELVE_API_KEY'')"
    and alpha: "truthy ([''TWELVE_API_KEY'' \<mapsto> ''t'', ''ALPHA_API_KEY'' \<mapsto> ''a''] ''ALPHA_API_KEY'')"
    and no_alpha: "\<not> truthy ([''TWELVE_API_KEY'' \<mapsto> ''t''] ''ALPHA_API_KEY'')"
    by (simp_all add: truthy_def)
  have r1: "fst (get_stock_data [''TWELVE_API_KEY'' \<mapsto> ''t'', ''ALPHA_API_KEY'' \<mapsto> ''a'']
            flat_quote ''AAPL'' start) = Inr second_opinion"
    using get_stock_data_primary [where environ = "[''TWELVE_API_KEY'' \<mapsto> ''t'', ''ALPHA_API_KEY'' \<mapsto> ''a'']"
        and net = flat_quote and symbol = "''AAPL''" and w = start]
      flat_quote_twelve [of "[''TWELVE_API_KEY'' \<mapsto> ''t'', ''ALPHA_API_KEY'' \<mapsto> ''a'']"]
      flat_quote_alphavantage both alpha
    by (simp add: split_beta dict_get_def)
  have r2: "fst (get_stock_data [''TWELVE_API_KEY'' \<mapsto> ''t''] flat_quote ''AAPL'' start)
       = fst (get_stock_data_twelve [''TWELVE_API_KEY'' \<mapsto> ''t''] flat_quote ''AAPL'' start)"
    using get_stock_data_primary [where environ = "[''TWELVE_API_KEY'' \<mapsto> ''t'']"
        and net = flat_quote and symbol = "''AAPL''" and w = start] one no_alpha
    by (simp add: split_beta)
  from both r1 one r2 show ?thesis by blast
qed

text \<open>
  Claim C7. With no key in the environment, \<open>CONFIG\<close> still holds the key
  \<open>TWELVE_API_KEY\<close>, with the value \<open>None\<close>, so the default \<open>demo\<close> of \<open>CONFIG.get\<close> is never
  taken: the quote request is sent with no credential. When it is refused, the adapter
  falls back to Alpha Vantage, which returns its error before any request, and
  \<open>get_stock_data\<close> returns the configuration error.
\<close>

theorem get_stock_data_unconfigured:
  "dict_get (CONFIG Map.empty) ''TWELVE_API_KEY'' (Some ''demo'') = None
   \<and> fst (get_stock_data Map.empty refusing ''AAPL'' start) = Inl NoFinancialApis
   \<and> sent (snd (get_stock_data Map.empty refusing ''AAPL'' start)) = [TwelveQuote ''AAPL'' None]"
  by (simp add: stock_eval AAPL_clean refusing_def parse_zero_def limiter_eval)






end
